theory Spec2Isabelle
  imports Main
begin

section \<open>The extension allow-list of \<^verbatim>\<open>allowedExtensionsService.ts\<close>\<close>

text \<open>
  The development embeds \<^verbatim>\<open>AllowedExtensionsService\<close>
  (\<^verbatim>\<open>src/vs/platform/extensionManagement/common/allowedExtensionsService.ts\<close>):
  its constructor, \<^verbatim>\<open>getAllowedExtensionsValue\<close> and \<^verbatim>\<open>isAllowed\<close>.

  Modelling conventions.
  \<^item> A JavaScript string is a \<open>string\<close>: a list of code units, each a \<open>char\<close>. The model covers
    the code units below 256.
  \<^item> An ordinary object used as a dictionary is the map \<open>string \<rightharpoonup> 'v\<close> of its own properties;
    a lookup \<^verbatim>\<open>d[k]\<close> also sees the properties inherited from \<^verbatim>\<open>Object.prototype\<close>.
  \<^item> A dictionary that is enumerated (\<^verbatim>\<open>Object.entries\<close>, \<^verbatim>\<open>for ... in\<close>) is the list of its
    own entries in enumeration order.
  \<^item> The value \<^verbatim>\<open>true | IMarkdownString\<close> that \<^verbatim>\<open>isAllowed\<close> returns is a \<open>verdict\<close>; a
    denial carries the key of the localized message it was built from. An exception that
    \<^verbatim>\<open>isAllowed\<close> raises is an \<open>error\<close>.
\<close>

subsection \<open>Strings\<close>

text \<open>
  \<^verbatim>\<open>String.prototype.toLowerCase\<close> on the code units below 256: the letters \<^verbatim>\<open>A\<close> to \<^verbatim>\<open>Z\<close>
  (65 to 90) and the capital letters of Latin-1 (192 to 222, without the multiplication sign
  215) are moved up by 32; every other code unit is kept.
\<close>

definition toLowerCase_char :: "char \<Rightarrow> char" where
  "toLowerCase_char c =
     (let n = (of_char c :: nat)
      in if (65 \<le> n \<and> n \<le> 90) \<or> (192 \<le> n \<and> n \<le> 222 \<and> n \<noteq> 215)
         then char_of (n + 32)
         else c)"

definition toLowerCase :: "string \<Rightarrow> string" where
  "toLowerCase s = map toLowerCase_char s"

text \<open>\<^verbatim>\<open>s.indexOf(c)\<close> for a one-character search string: the first index of \<open>c\<close>, or \<open>-1\<close>.\<close>

fun indexOf :: "string \<Rightarrow> char \<Rightarrow> int" where
  "indexOf [] c = - 1"
| "indexOf (x # xs) c =
     (if x = c then 0
      else (let i = indexOf xs c in if i < 0 then - 1 else i + 1))"

text \<open>
  \<^verbatim>\<open>s.substring(start, end)\<close>: both indices are clamped to \<open>[0, length s]\<close> and swapped when
  the first exceeds the second.
\<close>

definition substring :: "string \<Rightarrow> int \<Rightarrow> int \<Rightarrow> string" where
  "substring s start end' =
     (let n = int (length s);
          a = max 0 (min start n);
          b = max 0 (min end' n);
          lo = min a b;
          hi = max a b
      in take (nat (hi - lo)) (drop (nat lo) s))"

subsection \<open>The version pattern\<close>

text \<open>
  \<^verbatim>\<open>const VersionRegex = /^(?<version>\d+\.\d+\.\d+(-.*)?)(@(?<platform>.+))?$/;\<close>

  The pattern has no flags: \<^verbatim>\<open>\d\<close> is a decimal digit, \<^verbatim>\<open>.\<close> is any code unit but a line
  terminator, \<^verbatim>\<open>$\<close> is the end of the input. Among the code units of the model the line
  terminators are the line feed and the carriage return.
\<close>

definition isDigit :: "char \<Rightarrow> bool" where
  "isDigit c = (c \<in> set ''0123456789'')"

definition isLineTerminator :: "char \<Rightarrow> bool" where
  "isLineTerminator c = (c = CHR 0x0A \<or> c = CHR 0x0D)"

text \<open>\<^verbatim>\<open>\d+\<close>, greedy: the longest non-empty run of digits and the rest of the input.\<close>

definition digits :: "string \<Rightarrow> (string \<times> string) option" where
  "digits s =
     (if takeWhile isDigit s = [] then None
      else Some (takeWhile isDigit s, dropWhile isDigit s))"

text \<open>\<^verbatim>\<open>\.\<close>: a literal dot.\<close>

definition dot :: "string \<Rightarrow> string option" where
  "dot s = (case s of [] \<Rightarrow> None | c # r \<Rightarrow> if c = CHR ''.'' then Some r else None)"

text \<open>\<^verbatim>\<open>\d+\.\d+\.\d+\<close>: the matched prefix and the rest of the input.\<close>

definition semver :: "string \<Rightarrow> (string \<times> string) option" where
  "semver s =
     (case digits s of None \<Rightarrow> None | Some (d1, r1) \<Rightarrow>
      (case dot r1 of None \<Rightarrow> None | Some r1' \<Rightarrow>
       (case digits r1' of None \<Rightarrow> None | Some (d2, r2) \<Rightarrow>
        (case dot r2 of None \<Rightarrow> None | Some r2' \<Rightarrow>
         (case digits r2' of None \<Rightarrow> None | Some (d3, r3) \<Rightarrow>
            Some (d1 @ ''.'' @ d2 @ ''.'' @ d3, r3))))))"

text \<open>
  \<^verbatim>\<open>VersionRegex.exec(v)\<close>: \<open>None\<close> for \<^verbatim>\<open>null\<close>, otherwise the groups \<^verbatim>\<open>version\<close> and
  \<^verbatim>\<open>platform\<close> (\<open>None\<close> for an \<^verbatim>\<open>undefined\<close> group). After \<^verbatim>\<open>\d+\.\d+\.\d+\<close> the input
  \<^item> ends: the optional groups match nothing;
  \<^item> goes on with \<^verbatim>\<open>-\<close>: the greedy \<^verbatim>\<open>(-.*)?\<close> runs to the end of the input when no line
    terminator follows, the platform group then matches nothing and \<^verbatim>\<open>$\<close> succeeds, so that
    an \<^verbatim>\<open>@\<close> after the \<^verbatim>\<open>-\<close> belongs to the version; a line terminator stops every \<^verbatim>\<open>.\<close> before
    the end of the input, and no shorter match of \<^verbatim>\<open>(-.*)?\<close> reaches \<^verbatim>\<open>$\<close>;
  \<^item> goes on with \<^verbatim>\<open>@\<close>: \<^verbatim>\<open>.+\<close> has to match the non-empty rest up to the end;
  \<^item> goes on with anything else: no match.
\<close>

definition VersionRegex_exec :: "string \<Rightarrow> (string \<times> string option) option" where
  "VersionRegex_exec v =
     (case semver v of
        None \<Rightarrow> None
      | Some (core, rest) \<Rightarrow>
          (case rest of
             [] \<Rightarrow> Some (core, None)
           | c # t \<Rightarrow>
               if c = CHR ''-'' then
                 (if list_ex isLineTerminator t then None else Some (core @ rest, None))
               else if c = CHR ''@'' then
                 (if t = [] \<or> list_ex isLineTerminator t then None else Some (core, Some t))
               else None))"

subsection \<open>Property lookup\<close>

text \<open>
  The policy table (built by \<^verbatim>\<open>Object.fromEntries\<close>) and the publisher mappings (the literal
  \<^verbatim>\<open>{}\<close>) are ordinary objects: their prototype is \<^verbatim>\<open>Object.prototype\<close>, and a lookup
  \<^verbatim>\<open>obj[key]\<close> that finds no own property goes on to the properties of the prototype. The
  properties of \<^verbatim>\<open>Object.prototype\<close>:
\<close>

definition ObjectPrototype_properties :: "string list" where
  "ObjectPrototype_properties =
     [''constructor'', ''__defineGetter__'', ''__defineSetter__'', ''hasOwnProperty'',
      ''__lookupGetter__'', ''__lookupSetter__'', ''isPrototypeOf'', ''propertyIsEnumerable'',
      ''toString'', ''valueOf'', ''__proto__'', ''toLocaleString'']"

text \<open>
  The result of \<^verbatim>\<open>obj[key]\<close>: \<^verbatim>\<open>undefined\<close>, the value of an own property, or an inherited
  value. Every inherited value is a function or, for \<^verbatim>\<open>__proto__\<close>, the prototype object
  itself: it is not \<^verbatim>\<open>undefined\<close>, not a boolean, not a string and not an array, and it has no
  method \<^verbatim>\<open>toLowerCase\<close>.
\<close>

datatype 'v property = Undefined | Own 'v | Inherited

definition getProperty :: "(string \<rightharpoonup> 'v) \<Rightarrow> string \<Rightarrow> 'v property" where
  "getProperty obj key =
     (case obj key of
        Some v \<Rightarrow> Own v
      | None \<Rightarrow> if key \<in> set ObjectPrototype_properties then Inherited else Undefined)"

text \<open>
  \<^verbatim>\<open>obj[key] = value\<close> for a string \<^verbatim>\<open>value\<close>: the assignment creates or replaces an own
  property, except for the key \<^verbatim>\<open>__proto__\<close>, where it calls the inherited setter, which
  ignores a value that is not an object.
\<close>

definition setProperty :: "(string \<rightharpoonup> string) \<Rightarrow> string \<Rightarrow> string \<Rightarrow> (string \<rightharpoonup> string)" where
  "setProperty obj key value = (if key = ''__proto__'' then obj else obj(key \<mapsto> value))"

text \<open>The exception that a call of a missing method raises.\<close>

datatype error = TypeError

subsection \<open>Data\<close>

text \<open>
  \<^verbatim>\<open>type AllowedExtensionsConfigValueType = IStringDictionary<boolean | string | string[]>;\<close>
\<close>

datatype allowed_value =
    VBoolean bool
  | VString string
  | VArray "string list"

type_synonym AllowedExtensionsConfigValueType = "string \<rightharpoonup> allowed_value"

text \<open>
  What \<^verbatim>\<open>configurationService.getValue(AllowedExtensionsConfigKey)\<close> may return: any JSON
  value or \<^verbatim>\<open>undefined\<close>. An object is the list of its entries in the order of
  \<^verbatim>\<open>Object.entries\<close>; its keys are pairwise distinct.
\<close>

datatype config_value =
    CUndefined
  | CNull
  | CBoolean bool
  | CNumber int
  | CString string
  | CArray "config_value list"
  | CObject "(string \<times> allowed_value) list"

text \<open>
  Modelled from the spec: \<^verbatim>\<open>isObject\<close>, \<^verbatim>\<open>isBoolean\<close> and \<^verbatim>\<open>isUndefined\<close> of
  \<^verbatim>\<open>base/common/types.js\<close> are imported by the service and are not among the sources. A
  configuration is a policy only when it is a mapping; ``any other shape (including arrays
  passed at the top level) is treated as no policy''. In \<^verbatim>\<open>isAllowed\<close> the tests
  \<^verbatim>\<open>isUndefined\<close> and \<^verbatim>\<open>isBoolean\<close> are the case distinctions on \<open>Undefined\<close> and on
  \<open>VBoolean\<close>.
\<close>

definition isObject :: "config_value \<Rightarrow> bool" where
  "isObject value = (case value of CObject _ \<Rightarrow> True | _ \<Rightarrow> False)"

definition Array_isArray :: "config_value \<Rightarrow> bool" where
  "Array_isArray value = (case value of CArray _ \<Rightarrow> True | _ \<Rightarrow> False)"

text \<open>
  Modelled from the spec: the enumeration \<^verbatim>\<open>TargetPlatform\<close> of
  \<^verbatim>\<open>platform/extensions/common/extensions.js\<close> is not among the sources. A target platform
  is the string of its enumeration value; the target platform of a descriptor that names none
  is ``universal''.
\<close>

type_synonym TargetPlatform = string

definition TargetPlatform_UNIVERSAL :: TargetPlatform where
  "TargetPlatform_UNIVERSAL = ''universal''"

datatype ExtensionType = System | User

text \<open>
  The three shapes \<^verbatim>\<open>isAllowed\<close> accepts, with the fields it reads.
  \<^item> \<open>GalleryExtension\<close> (\<^verbatim>\<open>extension.type === 'gallery'\<close>): \<^verbatim>\<open>identifier.id\<close>, \<^verbatim>\<open>version\<close>,
    \<^verbatim>\<open>properties.isPreReleaseVersion\<close>, \<^verbatim>\<open>publisher\<close>, \<^verbatim>\<open>properties.targetPlatform\<close>.
  \<^item> \<open>Extension\<close> (\<^verbatim>\<open>extension.type\<close> is \<^verbatim>\<open>ExtensionType.User\<close> or \<^verbatim>\<open>ExtensionType.System\<close>):
    \<^verbatim>\<open>type\<close>, \<^verbatim>\<open>identifier.id\<close>, \<^verbatim>\<open>manifest.version\<close>, \<^verbatim>\<open>preRelease\<close>, \<^verbatim>\<open>manifest.publisher\<close>,
    \<^verbatim>\<open>targetPlatform\<close>.
  \<^item> \<open>Minimal\<close>: \<^verbatim>\<open>id\<close> and the optional \<^verbatim>\<open>version\<close>, \<^verbatim>\<open>prerelease\<close>, \<^verbatim>\<open>targetPlatform\<close>.
\<close>

datatype extension =
    GalleryExtension string string bool string TargetPlatform
  | Extension ExtensionType string string bool string TargetPlatform
  | Minimal string "string option" "bool option" "TargetPlatform option"

text \<open>The messages of a denial, by the key given to \<^verbatim>\<open>nls.localize\<close>.\<close>

datatype reason =
    specific_extension_not_allowed
  | extension_prerelease_not_allowed
  | publisher_not_allowed
  | prerelease_versions_from_this_publisher_not_allowed

datatype verdict = Allowed | Denied reason

record service =
  allowedExtensions :: "AllowedExtensionsConfigValueType option"
  publisherMappings :: "string \<rightharpoonup> string"

subsection \<open>Loading the policy\<close>

text \<open>\<^verbatim>\<open>Object.fromEntries(entries)\<close>: a later entry replaces an earlier one with the same key.\<close>

definition fromEntries :: "(string \<times> 'v) list \<Rightarrow> (string \<rightharpoonup> 'v)" where
  "fromEntries es = foldl (\<lambda>m (k, v). m(k \<mapsto> v)) Map.empty es"

definition getAllowedExtensionsValue :: "config_value \<Rightarrow> AllowedExtensionsConfigValueType option" where
  "getAllowedExtensionsValue value =
     (if \<not> isObject value \<or> Array_isArray value then None
      else (case value of
              CObject kvs \<Rightarrow>
                (let entries = map (\<lambda>(key, value). (toLowerCase key, value)) kvs
                 in if length entries = 1 \<and> fst (entries ! 0) = ''*''
                         \<and> snd (entries ! 0) = VBoolean True
                    then None
                    else Some (fromEntries entries))
            | _ \<Rightarrow> None))"

text \<open>
  The constructor: the publisher mappings of the product, keys and values in lower case,
  assigned one by one to the object \<^verbatim>\<open>{}\<close>, and the first load of the policy.
\<close>

definition constructor :: "(string \<times> string) list \<Rightarrow> config_value \<Rightarrow> service" where
  "constructor extensionPublisherMappings config =
     \<lparr> allowedExtensions = getAllowedExtensionsValue config,
       publisherMappings =
         foldl (\<lambda>m (key, canonical). setProperty m (toLowerCase key) (toLowerCase canonical))
           Map.empty extensionPublisherMappings \<rparr>"

text \<open>The handler of a configuration change that affects the policy key.\<close>

definition onDidChangeConfiguration :: "config_value \<Rightarrow> service \<Rightarrow> service" where
  "onDidChangeConfiguration config this =
     this\<lparr> allowedExtensions := getAllowedExtensionsValue config \<rparr>"

subsection \<open>The five fields \<^verbatim>\<open>isAllowed\<close> derives from a descriptor\<close>

fun ext_id :: "extension \<Rightarrow> string" where
  "ext_id (GalleryExtension i v pre pub tp) = toLowerCase i"
| "ext_id (Extension ty i v pre pub tp) = toLowerCase i"
| "ext_id (Minimal i v pre tp) = toLowerCase i"

fun ext_version :: "extension \<Rightarrow> string" where
  "ext_version (GalleryExtension i v pre pub tp) = v"
| "ext_version (Extension ty i v pre pub tp) = v"
| "ext_version (Minimal i v pre tp) = (case v of None \<Rightarrow> ''*'' | Some v' \<Rightarrow> v')"

fun ext_targetPlatform :: "extension \<Rightarrow> TargetPlatform" where
  "ext_targetPlatform (GalleryExtension i v pre pub tp) = tp"
| "ext_targetPlatform (Extension ty i v pre pub tp) = tp"
| "ext_targetPlatform (Minimal i v pre tp) =
     (case tp of None \<Rightarrow> TargetPlatform_UNIVERSAL | Some tp' \<Rightarrow> tp')"

fun ext_prerelease :: "extension \<Rightarrow> bool" where
  "ext_prerelease (GalleryExtension i v pre pub tp) = pre"
| "ext_prerelease (Extension ty i v pre pub tp) = pre"
| "ext_prerelease (Minimal i v pre tp) = (case pre of None \<Rightarrow> False | Some b \<Rightarrow> b)"

fun ext_publisher :: "extension \<Rightarrow> string" where
  "ext_publisher (GalleryExtension i v pre pub tp) = toLowerCase pub"
| "ext_publisher (Extension ty i v pre pub tp) = toLowerCase pub"
| "ext_publisher (Minimal i v pre tp) =
     toLowerCase (substring i 0 (indexOf i CHR ''.''))"

subsection \<open>\<^verbatim>\<open>isAllowed\<close>\<close>

text \<open>
  The callback of \<^verbatim>\<open>extensionValue.some\<close>: the entry has to match the pattern, its version
  group has to equal the version, and its platform group, when it is there and the target
  platform is not universal, has to equal the target platform.
\<close>

definition versionMatches :: "string \<Rightarrow> TargetPlatform \<Rightarrow> string \<Rightarrow> bool" where
  "versionMatches version targetPlatform entry =
     (case VersionRegex_exec entry of
        None \<Rightarrow> False
      | Some (v, p) \<Rightarrow>
          if v \<noteq> version then False
          else if targetPlatform \<noteq> TargetPlatform_UNIVERSAL
                  \<and> (case p of None \<Rightarrow> False | Some p' \<Rightarrow> p' \<noteq> [] \<and> targetPlatform \<noteq> p')
          then False
          else True)"

text \<open>
  \<^verbatim>\<open>publisher = (this.publisherMappings[publisher])?.toLowerCase() ?? publisher;\<close>

  An own mapping gives the canonical name in lower case; without a property the publisher is
  kept; an inherited value is not nullish, so that \<^verbatim>\<open>?.\<close> goes on to call its missing method
  \<^verbatim>\<open>toLowerCase\<close>, which raises a \<^verbatim>\<open>TypeError\<close>.
\<close>

definition normalizePublisher :: "(string \<rightharpoonup> string) \<Rightarrow> string \<Rightarrow> error + string" where
  "normalizePublisher mappings publisher =
     (case getProperty mappings publisher of
        Own canonical \<Rightarrow> Inr (toLowerCase canonical)
      | Inherited \<Rightarrow> Inl TypeError
      | Undefined \<Rightarrow> Inr publisher)"

text \<open>
  \<^verbatim>\<open>isAllowed\<close>: \<open>Inr\<close> the verdict it returns, \<open>Inl\<close> the exception it raises. An inherited
  value found for the id or for the publisher passes the test \<^verbatim>\<open>!isUndefined\<close>, fails the
  tests \<^verbatim>\<open>isBoolean\<close>, \<^verbatim>\<open>=== 'release'\<close> and \<^verbatim>\<open>Array.isArray\<close>, and reaches \<^verbatim>\<open>return true\<close>.
\<close>

definition isAllowed :: "service \<Rightarrow> extension \<Rightarrow> error + verdict" where
  "isAllowed this extension =
     (case allowedExtensions this of
        None \<Rightarrow> Inr Allowed
      | Some table \<Rightarrow>
          (let id' = ext_id extension;
               version = ext_version extension;
               targetPlatform = ext_targetPlatform extension;
               prerelease = ext_prerelease extension;
               publisher = ext_publisher extension
           in case getProperty table id' of
                Own extensionValue \<Rightarrow>
                  (case extensionValue of
                     VBoolean b \<Rightarrow>
                       Inr (if b then Allowed else Denied specific_extension_not_allowed)
                   | _ \<Rightarrow>
                       if extensionValue = VString ''release'' \<and> prerelease
                       then Inr (Denied extension_prerelease_not_allowed)
                       else if version \<noteq> ''*''
                               \<and> (case extensionValue of
                                     VArray vs \<Rightarrow>
                                       \<not> list_ex (versionMatches version targetPlatform) vs
                                   | _ \<Rightarrow> False)
                       then Inr (Denied specific_extension_not_allowed)
                       else Inr Allowed)
              | Inherited \<Rightarrow> Inr Allowed
              | Undefined \<Rightarrow>
                  (case normalizePublisher (publisherMappings this) publisher of
                     Inl exception \<Rightarrow> Inl exception
                   | Inr publisher' \<Rightarrow>
                       (case getProperty table publisher' of
                          Own publisherValue \<Rightarrow>
                            (case publisherValue of
                               VBoolean b \<Rightarrow>
                                 Inr (if b then Allowed else Denied publisher_not_allowed)
                             | _ \<Rightarrow>
                                 if publisherValue = VString ''release'' \<and> prerelease
                                 then Inr (Denied
                                        prerelease_versions_from_this_publisher_not_allowed)
                                 else Inr Allowed)
                        | Inherited \<Rightarrow> Inr Allowed
                        | Undefined \<Rightarrow>
                            if getProperty table ''*'' = Own (VBoolean True) then Inr Allowed
                            else Inr (Denied specific_extension_not_allowed)))))"

section \<open>Properties\<close>

subsection \<open>Auxiliary facts\<close>

lemma toLowerCase_star: "toLowerCase ''*'' = ''*''"
  by code_simp

lemma lower_pub_ext: "toLowerCase ''pub.ext'' = ''pub.ext''"
  by code_simp

lemma indexOf_absent: "c \<notin> set s \<Longrightarrow> indexOf s c = - 1"
  by (induction s) (auto simp add: Let_def)

lemma substring_to_negative: "e \<le> 0 \<Longrightarrow> substring s 0 e = []"
  by (simp add: substring_def Let_def)

lemma getProperty_own: "obj key = Some v \<Longrightarrow> getProperty obj key = Own v"
  by (simp add: getProperty_def)

text \<open>The stages of \<^verbatim>\<open>isAllowed\<close>, one lemma each.\<close>

lemma isAllowed_no_policy:
  "allowedExtensions this = None \<Longrightarrow> isAllowed this e = Inr Allowed"
  by (simp add: isAllowed_def)

lemma isAllowed_id_level:
  assumes "allowedExtensions this = Some table" and "table (ext_id e) = Some v"
  shows "isAllowed this e = Inr
    (case v of
       VBoolean b \<Rightarrow> if b then Allowed else Denied specific_extension_not_allowed
     | VString s \<Rightarrow>
         if s = ''release'' \<and> ext_prerelease e then Denied extension_prerelease_not_allowed
         else Allowed
     | VArray vs \<Rightarrow>
         if ext_version e \<noteq> ''*''
            \<and> \<not> list_ex (versionMatches (ext_version e) (ext_targetPlatform e)) vs
         then Denied specific_extension_not_allowed
         else Allowed)"
  using assms
  by (simp add: isAllowed_def Let_def getProperty_own split: allowed_value.splits)

lemma isAllowed_publisher_level:
  assumes "allowedExtensions this = Some table"
    and "getProperty table (ext_id e) = Undefined"
    and "normalizePublisher (publisherMappings this) (ext_publisher e) = Inr key"
  shows "isAllowed this e = Inr
    (case getProperty table key of
       Own (VBoolean b) \<Rightarrow> if b then Allowed else Denied publisher_not_allowed
     | Own (VString s) \<Rightarrow>
         if s = ''release'' \<and> ext_prerelease e
         then Denied prerelease_versions_from_this_publisher_not_allowed
         else Allowed
     | Own (VArray vs) \<Rightarrow> Allowed
     | Inherited \<Rightarrow> Allowed
     | Undefined \<Rightarrow>
         if getProperty table ''*'' = Own (VBoolean True) then Allowed
         else Denied specific_extension_not_allowed)"
  using assms
  by (simp add: isAllowed_def Let_def split: allowed_value.splits property.splits)

lemma allowedExtensions_constructor:
  "allowedExtensions (constructor mappings config) = getAllowedExtensionsValue config"
  by (simp add: constructor_def)

lemma allowedExtensions_onDidChangeConfiguration:
  "allowedExtensions (onDidChangeConfiguration config this) = getAllowedExtensionsValue config"
  by (simp add: onDidChangeConfiguration_def)

lemma publisherMappings_constructor_Nil:
  "publisherMappings (constructor [] config) = Map.empty"
  by (simp add: constructor_def)

lemma getAllowedExtensionsValue_not_object:
  "(\<forall>kvs. value \<noteq> CObject kvs) \<Longrightarrow> getAllowedExtensionsValue value = None"
  by (cases "value") (simp_all add: getAllowedExtensionsValue_def isObject_def Array_isArray_def)

lemma getAllowedExtensionsValue_wildcard_only:
  "getAllowedExtensionsValue (CObject [(''*'', VBoolean True)]) = None"
  by (simp add: getAllowedExtensionsValue_def isObject_def Array_isArray_def toLowerCase_star)

lemma getAllowedExtensionsValue_object:
  assumes "\<not> (length kvs = 1 \<and> toLowerCase (fst (kvs ! 0)) = ''*'' \<and> snd (kvs ! 0) = VBoolean True)"
  shows "getAllowedExtensionsValue (CObject kvs)
    = Some (fromEntries (map (\<lambda>(key, value). (toLowerCase key, value)) kvs))"
proof (cases "length kvs = 1")
  case True
  then obtain k v where "kvs = [(k, v)]"
    by (cases kvs) auto
  with assms show ?thesis
    by (simp add: getAllowedExtensionsValue_def isObject_def Array_isArray_def)
next
  case False
  then show ?thesis
    by (simp add: getAllowedExtensionsValue_def isObject_def Array_isArray_def)
qed

subsection \<open>What the version pattern accepts\<close>

lemma takeWhile_isDigit_append:
  "\<not> isDigit c \<Longrightarrow> takeWhile isDigit (s @ c # q) = takeWhile isDigit s"
  by (induction s) simp_all

lemma dropWhile_isDigit_append:
  "\<not> isDigit c \<Longrightarrow> dropWhile isDigit (s @ c # q) = dropWhile isDigit s @ c # q"
  by (induction s) simp_all

lemma digits_split: "digits s = Some (d, r) \<Longrightarrow> s = d @ r"
  by (auto simp add: digits_def split: if_splits)

lemma digits_append:
  "digits s = Some (d, r) \<Longrightarrow> \<not> isDigit c \<Longrightarrow> digits (s @ c # q) = Some (d, r @ c # q)"
  by (auto simp add: digits_def takeWhile_isDigit_append dropWhile_isDigit_append
      split: if_splits)

lemma dot_split: "dot s = Some r \<Longrightarrow> s = CHR ''.'' # r"
  by (auto simp add: dot_def split: list.splits if_splits)

lemma dot_append: "dot s = Some r \<Longrightarrow> dot (s @ x) = Some (r @ x)"
  by (auto simp add: dot_def split: list.splits if_splits)

text \<open>The prefix that \<^verbatim>\<open>\d+\.\d+\.\d+\<close> matches and the rest make up the input.\<close>

lemma semver_split:
  assumes "semver s = Some (core, rest)"
  shows "s = core @ rest"
proof -
  from assms obtain d1 r1 r1' d2 r2 r2' d3 where
    steps: "digits s = Some (d1, r1)" "dot r1 = Some r1'" "digits r1' = Some (d2, r2)"
      "dot r2 = Some r2'" "digits r2' = Some (d3, rest)"
    and core: "core = d1 @ ''.'' @ d2 @ ''.'' @ d3"
    by (auto simp add: semver_def split: option.splits prod.splits)
  show ?thesis
    using steps(1,3,5) [THEN digits_split] steps(2,4) [THEN dot_split] core by simp
qed

text \<open>A code unit that is no digit, put behind the input, stays in the rest.\<close>

lemma semver_append:
  assumes "semver s = Some (core, rest)" and "\<not> isDigit c"
  shows "semver (s @ c # q) = Some (core, rest @ c # q)"
proof -
  from assms(1) obtain d1 r1 r1' d2 r2 r2' d3 where
    steps: "digits s = Some (d1, r1)" "dot r1 = Some r1'" "digits r1' = Some (d2, r2)"
      "dot r2 = Some r2'" "digits r2' = Some (d3, rest)"
    and core: "core = d1 @ ''.'' @ d2 @ ''.'' @ d3"
    by (auto simp add: semver_def split: option.splits prod.splits)
  have first: "digits (s @ c # q) = Some (d1, r1 @ c # q)"
    using steps(1) assms(2) by (rule digits_append)
  have first_dot: "dot (r1 @ c # q) = Some (r1' @ c # q)"
    using steps(2) by (rule dot_append)
  have second: "digits (r1' @ c # q) = Some (d2, r2 @ c # q)"
    using steps(3) assms(2) by (rule digits_append)
  have second_dot: "dot (r2 @ c # q) = Some (r2' @ c # q)"
    using steps(4) by (rule dot_append)
  have third: "digits (r2' @ c # q) = Some (d3, rest @ c # q)"
    using steps(5) assms(2) by (rule digits_append)
  show ?thesis
    by (simp add: semver_def first first_dot second second_dot third core)
qed

text \<open>
  An entry whose version group is \<open>v\<close> is \<open>v\<close> itself, without a platform group, or \<open>v\<close>
  followed by \<^verbatim>\<open>@\<close> and its platform group.
\<close>

lemma VersionRegex_exec_shape:
  assumes "VersionRegex_exec entry = Some (v, p)"
  shows "(entry = v \<and> p = None)
    \<or> (\<exists>t. p = Some t \<and> entry = v @ CHR ''@'' # t \<and> t \<noteq> [] \<and> \<not> list_ex isLineTerminator t)"
proof -
  from assms obtain core rest where parsed: "semver entry = Some (core, rest)"
    by (auto simp add: VersionRegex_exec_def split: option.splits)
  then have whole: "entry = core @ rest"
    by (rule semver_split)
  show ?thesis
    using assms parsed whole
    by (auto simp add: VersionRegex_exec_def split: list.splits if_splits)
qed

text \<open>A version of the plain form \<^verbatim>\<open>N.N.N\<close> is matched as it is, alone and before \<^verbatim>\<open>@\<close>.\<close>

lemma VersionRegex_exec_plain:
  "semver v = Some (v, []) \<Longrightarrow> VersionRegex_exec v = Some (v, None)"
  by (simp add: VersionRegex_exec_def)

lemma isDigit_at: "\<not> isDigit CHR ''@''"
  by (simp add: isDigit_def)

lemma VersionRegex_exec_plain_platform:
  assumes "semver v = Some (v, [])" and "t \<noteq> []" and "\<not> list_ex isLineTerminator t"
  shows "VersionRegex_exec (v @ CHR ''@'' # t) = Some (v, Some t)"
proof -
  have "semver (v @ CHR ''@'' # t) = Some (v, [] @ CHR ''@'' # t)"
    using assms(1) isDigit_at by (rule semver_append)
  then show ?thesis
    using assms(2,3) by (simp add: VersionRegex_exec_def)
qed

lemma versionMatches_iff:
  "versionMatches version targetPlatform entry \<longleftrightarrow>
     (\<exists>p. VersionRegex_exec entry = Some (version, p)
        \<and> (targetPlatform = TargetPlatform_UNIVERSAL \<or> p = None \<or> p = Some targetPlatform))"
proof (cases "VersionRegex_exec entry")
  case None
  then show ?thesis
    by (simp add: versionMatches_def)
next
  case (Some m)
  obtain v p where m: "m = (v, p)"
    by (cases m)
  show ?thesis
  proof (cases p)
    case None
    with Some m show ?thesis
      by (auto simp add: versionMatches_def)
  next
    case (Some p')
    with \<open>VersionRegex_exec entry = Some m\<close> m have "p' \<noteq> []"
      using VersionRegex_exec_shape by blast
    with Some \<open>VersionRegex_exec entry = Some m\<close> m show ?thesis
      by (auto simp add: versionMatches_def)
  qed
qed

text \<open>The entries that a plain version matches under the universal target platform.\<close>

lemma versionMatches_universal_plain:
  assumes "semver version = Some (version, [])"
  shows "versionMatches version TargetPlatform_UNIVERSAL entry \<longleftrightarrow>
     entry = version
     \<or> (\<exists>t. t \<noteq> [] \<and> \<not> list_ex isLineTerminator t \<and> entry = version @ CHR ''@'' # t)"
proof
  assume "versionMatches version TargetPlatform_UNIVERSAL entry"
  then obtain p where "VersionRegex_exec entry = Some (version, p)"
    by (auto simp add: versionMatches_iff)
  from VersionRegex_exec_shape [OF this]
  show "entry = version
      \<or> (\<exists>t. t \<noteq> [] \<and> \<not> list_ex isLineTerminator t \<and> entry = version @ CHR ''@'' # t)"
    by blast
next
  assume "entry = version
      \<or> (\<exists>t. t \<noteq> [] \<and> \<not> list_ex isLineTerminator t \<and> entry = version @ CHR ''@'' # t)"
  then show "versionMatches version TargetPlatform_UNIVERSAL entry"
    using VersionRegex_exec_plain [OF assms] VersionRegex_exec_plain_platform [OF assms]
    by (auto simp add: versionMatches_iff)
qed

text \<open>
  Under another target platform an entry that matches is the version itself or the version
  followed by \<^verbatim>\<open>@\<close> and the target platform.
\<close>

lemma versionMatches_platform_shape:
  assumes "versionMatches version targetPlatform entry"
    and "targetPlatform \<noteq> TargetPlatform_UNIVERSAL"
  shows "entry = version \<or> entry = version @ CHR ''@'' # targetPlatform"
proof -
  from assms obtain p where parsed: "VersionRegex_exec entry = Some (version, p)"
    and platform: "p = None \<or> p = Some targetPlatform"
    by (auto simp add: versionMatches_iff)
  from VersionRegex_exec_shape [OF parsed] platform show ?thesis
    by auto
qed

lemma exec_win32: "VersionRegex_exec ''1.2.3@win32'' = Some (''1.2.3'', Some ''win32'')"
  by code_simp

lemma exec_darwin: "VersionRegex_exec ''1.2.3@darwin'' = Some (''1.2.3'', Some ''darwin'')"
  by code_simp

lemma semver_1_2_3: "semver ''1.2.3'' = Some (''1.2.3'', [])"
  by code_simp

subsection \<open>Loading the policy: the fast path and the collapse\<close>

text \<open>
  Claim C4. Whatever the descriptor and its shape: when the configuration value is absent, is
  not an object, or is an array at the top level, the loaded policy table is \<open>None\<close>, at
  construction and after a reload, and \<^verbatim>\<open>isAllowed\<close> returns \<open>Allowed\<close>; and a service whose
  table is \<open>None\<close> allows every descriptor.
\<close>

theorem no_policy_fast_path:
  assumes "value = CUndefined \<or> (\<forall>kvs. value \<noteq> CObject kvs) \<or> (\<exists>xs. value = CArray xs)"
  shows "getAllowedExtensionsValue value = None
    \<and> isAllowed (constructor mappings value) e = Inr Allowed
    \<and> isAllowed (onDidChangeConfiguration value this) e = Inr Allowed
    \<and> (\<forall>this'. allowedExtensions this' = None \<longrightarrow> isAllowed this' e = Inr Allowed)"
proof -
  from assms have shape: "\<forall>kvs. value \<noteq> CObject kvs"
    by auto
  then have nil: "getAllowedExtensionsValue value = None"
    by (rule getAllowedExtensionsValue_not_object)
  have "isAllowed (constructor mappings value) e = Inr Allowed"
    by (rule isAllowed_no_policy) (simp add: allowedExtensions_constructor nil)
  moreover have "isAllowed (onDidChangeConfiguration value this) e = Inr Allowed"
    by (rule isAllowed_no_policy) (simp add: allowedExtensions_onDidChangeConfiguration nil)
  ultimately show ?thesis
    using nil by (simp add: isAllowed_no_policy)
qed

theorem no_policy_fast_path_witness:
  "getAllowedExtensionsValue (CArray [CString ''pub.ext'']) = None
   \<and> isAllowed (constructor [] (CArray [CString ''pub.ext'']))
        (Minimal ''pub.ext'' (Some ''1.2.3'') (Some True) (Some ''linux'')) = Inr Allowed
   \<and> isAllowed (constructor [] CUndefined)
        (GalleryExtension ''pub.ext'' ''1.2.3'' True ''pub'' ''linux'') = Inr Allowed
   \<and> isAllowed (constructor [] (CNumber 7))
        (Extension User ''pub.ext'' ''1.2.3'' False ''pub'' ''linux'') = Inr Allowed"
proof -
  have array: "CArray [CString ''pub.ext''] = CUndefined
      \<or> (\<forall>kvs. CArray [CString ''pub.ext''] \<noteq> CObject kvs)
      \<or> (\<exists>xs. CArray [CString ''pub.ext''] = CArray xs)"
    by simp
  have absent: "CUndefined = CUndefined \<or> (\<forall>kvs. CUndefined \<noteq> CObject kvs)
      \<or> (\<exists>xs. CUndefined = CArray xs)"
    by simp
  have number: "CNumber 7 = CUndefined \<or> (\<forall>kvs. CNumber 7 \<noteq> CObject kvs)
      \<or> (\<exists>xs. CNumber 7 = CArray xs)"
    by simp
  show ?thesis
    using no_policy_fast_path [OF array, of "[]"
        "Minimal ''pub.ext'' (Some ''1.2.3'') (Some True) (Some ''linux'')"]
      no_policy_fast_path [OF absent, of "[]"
        "GalleryExtension ''pub.ext'' ''1.2.3'' True ''pub'' ''linux''"]
      no_policy_fast_path [OF number, of "[]"
        "Extension User ''pub.ext'' ''1.2.3'' False ''pub'' ''linux''"]
    by blast
qed

text \<open>
  Claim C3. The configuration \<^verbatim>\<open>{"*": true}\<close> is loaded as no policy (\<open>None\<close>); under it every
  descriptor is allowed, which is the verdict under an absent configuration.
\<close>

theorem wildcard_only_collapses:
  "getAllowedExtensionsValue (CObject [(''*'', VBoolean True)]) = None
   \<and> isAllowed (constructor mappings (CObject [(''*'', VBoolean True)])) e = Inr Allowed
   \<and> isAllowed (constructor mappings (CObject [(''*'', VBoolean True)])) e
       = isAllowed (constructor mappings CUndefined) e"
proof -
  have collapsed:
    "isAllowed (constructor mappings (CObject [(''*'', VBoolean True)])) e = Inr Allowed"
    by (rule isAllowed_no_policy)
      (simp add: allowedExtensions_constructor getAllowedExtensionsValue_wildcard_only)
  have absent: "isAllowed (constructor mappings CUndefined) e = Inr Allowed"
    by (rule isAllowed_no_policy)
      (simp add: allowedExtensions_constructor getAllowedExtensionsValue_not_object)
  show ?thesis
    using collapsed absent getAllowedExtensionsValue_wildcard_only by simp
qed

theorem wildcard_only_collapses_witness:
  "isAllowed (constructor [(''OldName'', ''NewName'')] (CObject [(''*'', VBoolean True)]))
      (Minimal ''pub.ext'' (Some ''1.2.3'') (Some True) None)
   = isAllowed (constructor [(''OldName'', ''NewName'')] CUndefined)
      (Minimal ''pub.ext'' (Some ''1.2.3'') (Some True) None)"
  using wildcard_only_collapses [of "[(''OldName'', ''NewName'')]"
      "Minimal ''pub.ext'' (Some ''1.2.3'') (Some True) None"]
  by blast

subsection \<open>The rule of the extension id\<close>

text \<open>
  Claim C6. When the policy value of the descriptor's id is the string \<^verbatim>\<open>"release"\<close>, a
  descriptor whose prerelease flag is set is denied with the message for prereleases of the
  extension, and a descriptor whose prerelease flag is not set is allowed.
\<close>

theorem release_marker_gates_prerelease:
  assumes "allowedExtensions this = Some table"
    and "table (ext_id e) = Some (VString ''release'')"
  shows "isAllowed this e =
    Inr (if ext_prerelease e then Denied extension_prerelease_not_allowed else Allowed)"
  using isAllowed_id_level [OF assms] by simp

theorem release_marker_gates_prerelease_witness:
  "isAllowed (constructor [] (CObject [(''pub.ext'', VString ''release'')]))
      (Minimal ''pub.ext'' None (Some True) None) = Inr (Denied extension_prerelease_not_allowed)
   \<and> isAllowed (constructor [] (CObject [(''pub.ext'', VString ''release'')]))
      (Minimal ''pub.ext'' None (Some False) None) = Inr Allowed"
proof -
  let ?svc = "constructor [] (CObject [(''pub.ext'', VString ''release'')])"
  let ?table = "fromEntries [(''pub.ext'', VString ''release'')]"
  have loaded: "allowedExtensions ?svc = Some ?table"
    by (simp add: allowedExtensions_constructor getAllowedExtensionsValue_def isObject_def
        Array_isArray_def lower_pub_ext)
  have pre: "?table (ext_id (Minimal ''pub.ext'' None (Some True) None)) = Some (VString ''release'')"
    by (simp add: fromEntries_def lower_pub_ext)
  have rel: "?table (ext_id (Minimal ''pub.ext'' None (Some False) None)) = Some (VString ''release'')"
    by (simp add: fromEntries_def lower_pub_ext)
  show ?thesis
    using release_marker_gates_prerelease [OF loaded pre]
      release_marker_gates_prerelease [OF loaded rel]
    by simp
qed

text \<open>
  Claim C2. When the table has an entry for the descriptor's id, that entry alone gives the
  verdict: the descriptor is allowed unless the entry is \<^verbatim>\<open>false\<close>, or is \<^verbatim>\<open>"release"\<close> while
  the descriptor is a prerelease, or is a sequence that the descriptor's version (other than
  \<^verbatim>\<open>*\<close>) does not match; any other service whose table has the same entry for the id, whatever
  its entries for the publisher and for \<^verbatim>\<open>*\<close> and whatever its publisher mappings, returns
  the same verdict. In particular the table \<^verbatim>\<open>{"pub.ext": false, "pub": true}\<close> denies every
  descriptor of id \<^verbatim>\<open>pub.ext\<close>.
\<close>

theorem id_level_rule_decides:
  assumes "allowedExtensions this = Some table" and "table (ext_id e) = Some v"
  shows "(isAllowed this e = Inr Allowed \<longleftrightarrow>
            \<not> (v = VBoolean False
               \<or> (v = VString ''release'' \<and> ext_prerelease e)
               \<or> (\<exists>vs. v = VArray vs \<and> ext_version e \<noteq> ''*''
                    \<and> \<not> list_ex (versionMatches (ext_version e) (ext_targetPlatform e)) vs)))
    \<and> (\<exists>verdict. isAllowed this e = Inr verdict)
    \<and> (\<forall>this' table'. allowedExtensions this' = Some table' \<longrightarrow> table' (ext_id e) = Some v
          \<longrightarrow> isAllowed this' e = isAllowed this e)
    \<and> (\<forall>mappings e'. ext_id e' = ''pub.ext'' \<longrightarrow>
          isAllowed (constructor mappings
              (CObject [(''pub.ext'', VBoolean False), (''pub'', VBoolean True)])) e'
            = Inr (Denied specific_extension_not_allowed))"
proof (intro conjI allI impI)
  show "isAllowed this e = Inr Allowed \<longleftrightarrow>
      \<not> (v = VBoolean False
         \<or> (v = VString ''release'' \<and> ext_prerelease e)
         \<or> (\<exists>vs. v = VArray vs \<and> ext_version e \<noteq> ''*''
              \<and> \<not> list_ex (versionMatches (ext_version e) (ext_targetPlatform e)) vs))"
    using isAllowed_id_level [OF assms] by (cases v) auto
next
  show "\<exists>verdict. isAllowed this e = Inr verdict"
    using isAllowed_id_level [OF assms] by simp
next
  fix this' :: service and table'
  assume "allowedExtensions this' = Some table'" and "table' (ext_id e) = Some v"
  then show "isAllowed this' e = isAllowed this e"
    using isAllowed_id_level [OF assms] by (simp add: isAllowed_id_level)
next
  fix mappings e'
  let ?kvs = "[(''pub.ext'', VBoolean False), (''pub'', VBoolean True)]"
  let ?table = "fromEntries (map (\<lambda>(key, value). (toLowerCase key, value)) ?kvs)"
  assume id: "ext_id e' = ''pub.ext''"
  have loaded: "allowedExtensions (constructor mappings (CObject ?kvs)) = Some ?table"
    unfolding allowedExtensions_constructor
    by (rule getAllowedExtensionsValue_object) simp
  have "toLowerCase ''pub'' \<noteq> ''pub.ext''"
    by (simp add: toLowerCase_def)
  then have entry: "?table (ext_id e') = Some (VBoolean False)"
    by (simp add: fromEntries_def lower_pub_ext id)
  show "isAllowed (constructor mappings (CObject ?kvs)) e'
      = Inr (Denied specific_extension_not_allowed)"
    using isAllowed_id_level [OF loaded entry] by simp
qed

theorem id_level_rule_decides_witness:
  "isAllowed (constructor [] (CObject [(''pub.ext'', VBoolean False), (''pub'', VBoolean True)]))
      (Minimal ''pub.ext'' None None None) \<noteq> Inr Allowed
   \<and> isAllowed (constructor [] (CObject [(''pub.ext'', VBoolean False), (''pub'', VBoolean True)]))
      (Minimal ''pub.ext'' None None None) = Inr (Denied specific_extension_not_allowed)"
proof -
  let ?kvs = "[(''pub.ext'', VBoolean False), (''pub'', VBoolean True)]"
  let ?table = "fromEntries (map (\<lambda>(key, value). (toLowerCase key, value)) ?kvs)"
  let ?e = "Minimal ''pub.ext'' None None None"
  have loaded: "allowedExtensions (constructor [] (CObject ?kvs)) = Some ?table"
    unfolding allowedExtensions_constructor
    by (rule getAllowedExtensionsValue_object) simp
  have id: "ext_id ?e = ''pub.ext''"
    by (simp add: lower_pub_ext)
  have "toLowerCase ''pub'' \<noteq> ''pub.ext''"
    by (simp add: toLowerCase_def)
  then have entry: "?table (ext_id ?e) = Some (VBoolean False)"
    by (simp add: fromEntries_def lower_pub_ext)
  show ?thesis
    using id_level_rule_decides [OF loaded entry] id by simp
qed

lemma semver_star: "semver ''*'' = None"
  by code_simp

text \<open>
  Claim C1, as the code has it. For a descriptor whose target platform is universal the
  platform suffix of an entry is not compared (\<^verbatim>\<open>targetPlatform !== TargetPlatform.UNIVERSAL\<close>
  guards the comparison). When the policy value of the id is a sequence and the version has
  the plain form \<^verbatim>\<open>N.N.N\<close>, the descriptor is allowed if the sequence has the version itself
  or the version followed by \<^verbatim>\<open>@\<close> and any platform suffix (non-empty, without a line
  terminator), and is denied with the message of the extension otherwise. Versions with a
  prerelease tag are left out of the statement.
\<close>

theorem universal_target_skips_platform_suffix:
  assumes "allowedExtensions this = Some table"
    and "table (ext_id e) = Some (VArray vs)"
    and "semver (ext_version e) = Some (ext_version e, [])"
    and "ext_targetPlatform e = TargetPlatform_UNIVERSAL"
  shows "isAllowed this e = Inr
    (if \<exists>entry \<in> set vs.
          entry = ext_version e
          \<or> (\<exists>t. t \<noteq> [] \<and> \<not> list_ex isLineTerminator t
                \<and> entry = ext_version e @ CHR ''@'' # t)
     then Allowed
     else Denied specific_extension_not_allowed)"
proof -
  from assms(3) have "ext_version e \<noteq> ''*''"
    using semver_star by auto
  then show ?thesis
    using isAllowed_id_level [OF assms(1,2)] assms(4)
    by (simp add: list_ex_iff versionMatches_universal_plain [OF assms(3)])
qed

theorem universal_target_skips_platform_suffix_witness:
  "isAllowed (constructor [] (CObject [(''pub.ext'', VArray [''1.2.4'', ''1.2.3@win32''])]))
      (GalleryExtension ''pub.ext'' ''1.2.3'' False ''pub'' ''universal'') = Inr Allowed"
proof -
  let ?kvs = "[(''pub.ext'', VArray [''1.2.4'', ''1.2.3@win32''])]"
  let ?table = "fromEntries (map (\<lambda>(key, value). (toLowerCase key, value)) ?kvs)"
  let ?e = "GalleryExtension ''pub.ext'' ''1.2.3'' False ''pub'' ''universal''"
  have loaded: "allowedExtensions (constructor [] (CObject ?kvs)) = Some ?table"
    unfolding allowedExtensions_constructor
    by (rule getAllowedExtensionsValue_object) simp
  have entry: "?table (ext_id ?e) = Some (VArray [''1.2.4'', ''1.2.3@win32''])"
    by (simp add: fromEntries_def lower_pub_ext)
  have plain: "semver (ext_version ?e) = Some (ext_version ?e, [])"
    by (simp add: semver_1_2_3)
  have universal: "ext_targetPlatform ?e = TargetPlatform_UNIVERSAL"
    by (simp add: TargetPlatform_UNIVERSAL_def)
  have suffix: "''win32'' \<noteq> [] \<and> \<not> list_ex isLineTerminator ''win32''
      \<and> ''1.2.3@win32'' = ''1.2.3'' @ CHR ''@'' # ''win32''"
    by (simp add: isLineTerminator_def)
  then have found: "\<exists>entry \<in> set [''1.2.4'', ''1.2.3@win32''].
      entry = ext_version ?e
      \<or> (\<exists>t. t \<noteq> [] \<and> \<not> list_ex isLineTerminator t
            \<and> entry = ext_version ?e @ CHR ''@'' # t)"
    by (simp only: ext_version.simps) (metis list.set_intros(1,2))
  show ?thesis
    using universal_target_skips_platform_suffix [OF loaded entry plain universal] found
    by (simp only: if_True)
qed

text \<open>
  The claim as the specification words it fails: every entry of the sequence carries the
  platform suffix \<^verbatim>\<open>win32\<close>, the target platform is universal, and the descriptor is allowed.
\<close>

theorem universal_target_platform_suffix_counterexample:
  "ext_targetPlatform (Minimal ''pub.ext'' (Some ''1.2.3'') None None) = TargetPlatform_UNIVERSAL
   \<and> ext_version (Minimal ''pub.ext'' (Some ''1.2.3'') None None) \<noteq> ''*''
   \<and> VersionRegex_exec ''1.2.3@win32'' = Some (''1.2.3'', Some ''win32'')
   \<and> ''win32'' \<noteq> TargetPlatform_UNIVERSAL
   \<and> isAllowed (constructor [] (CObject [(''pub.ext'', VArray [''1.2.3@win32''])]))
        (Minimal ''pub.ext'' (Some ''1.2.3'') None None) = Inr Allowed"
  by code_simp

text \<open>
  Claim C5, as the code has it. Let the policy value of the descriptor's id be a sequence of
  version descriptors.
  \<^item> A descriptor whose version has the plain form \<^verbatim>\<open>N.N.N\<close> is allowed when the sequence has
    the entry made of its version, \<^verbatim>\<open>@\<close> and its target platform.
  \<^item> A descriptor whose version is not \<^verbatim>\<open>*\<close> and whose target platform is not universal is
    denied when the sequence has neither its version alone nor its version followed by \<^verbatim>\<open>@\<close>
    and its target platform.
  \<^item> A descriptor whose version is \<^verbatim>\<open>*\<close> is allowed, whatever the sequence.
  \<^item> Under \<^verbatim>\<open>{"pub.ext": ["1.2.3@win32", "1.2.3@darwin"]}\<close>, version \<^verbatim>\<open>1.2.3\<close> of \<^verbatim>\<open>pub.ext\<close> is
    allowed for the target platform \<^verbatim>\<open>win32\<close> and denied for \<^verbatim>\<open>linux\<close>, and \<^verbatim>\<open>pub.ext\<close>
    without a version is allowed.

  The universal target platform, for which no suffix is compared, and the entries that carry a
  platform suffix behind a prerelease tag are left out of the statement.
\<close>

theorem version_sequence_matching:
  assumes "allowedExtensions this = Some table"
    and "table (ext_id e) = Some (VArray vs)"
  shows "(semver (ext_version e) = Some (ext_version e, [])
          \<and> ext_targetPlatform e \<noteq> [] \<and> \<not> list_ex isLineTerminator (ext_targetPlatform e)
          \<and> ext_version e @ CHR ''@'' # ext_targetPlatform e \<in> set vs
          \<longrightarrow> isAllowed this e = Inr Allowed)
    \<and> (ext_version e \<noteq> ''*'' \<and> ext_targetPlatform e \<noteq> TargetPlatform_UNIVERSAL
          \<and> ext_version e \<notin> set vs
          \<and> ext_version e @ CHR ''@'' # ext_targetPlatform e \<notin> set vs
          \<longrightarrow> isAllowed this e = Inr (Denied specific_extension_not_allowed))
    \<and> (ext_version e = ''*'' \<longrightarrow> isAllowed this e = Inr Allowed)
    \<and> isAllowed (constructor mappings
            (CObject [(''pub.ext'', VArray [''1.2.3@win32'', ''1.2.3@darwin''])]))
          (Minimal ''pub.ext'' (Some ''1.2.3'') pre (Some ''win32'')) = Inr Allowed
    \<and> isAllowed (constructor mappings
            (CObject [(''pub.ext'', VArray [''1.2.3@win32'', ''1.2.3@darwin''])]))
          (Minimal ''pub.ext'' (Some ''1.2.3'') pre (Some ''linux''))
        = Inr (Denied specific_extension_not_allowed)
    \<and> isAllowed (constructor mappings
            (CObject [(''pub.ext'', VArray [''1.2.3@win32'', ''1.2.3@darwin''])]))
          (Minimal ''pub.ext'' None pre target) = Inr Allowed"
proof -
  note verdict = isAllowed_id_level [OF assms]
  have matching: "isAllowed this e = Inr Allowed"
    if h: "semver (ext_version e) = Some (ext_version e, [])
        \<and> ext_targetPlatform e \<noteq> [] \<and> \<not> list_ex isLineTerminator (ext_targetPlatform e)
        \<and> ext_version e @ CHR ''@'' # ext_targetPlatform e \<in> set vs"
  proof -
    from h have "VersionRegex_exec (ext_version e @ CHR ''@'' # ext_targetPlatform e)
        = Some (ext_version e, Some (ext_targetPlatform e))"
      by (simp add: VersionRegex_exec_plain_platform)
    then have "versionMatches (ext_version e) (ext_targetPlatform e)
        (ext_version e @ CHR ''@'' # ext_targetPlatform e)"
      by (simp add: versionMatches_iff)
    with h have "list_ex (versionMatches (ext_version e) (ext_targetPlatform e)) vs"
      unfolding list_ex_iff by blast
    then show ?thesis
      using verdict by simp
  qed
  have other: "isAllowed this e = Inr (Denied specific_extension_not_allowed)"
    if h: "ext_version e \<noteq> ''*'' \<and> ext_targetPlatform e \<noteq> TargetPlatform_UNIVERSAL
        \<and> ext_version e \<notin> set vs
        \<and> ext_version e @ CHR ''@'' # ext_targetPlatform e \<notin> set vs"
  proof -
    from h have "\<not> list_ex (versionMatches (ext_version e) (ext_targetPlatform e)) vs"
      unfolding list_ex_iff using versionMatches_platform_shape by blast
    then show ?thesis
      using verdict h by simp
  qed
  have any: "ext_version e = ''*'' \<longrightarrow> isAllowed this e = Inr Allowed"
    using verdict by simp
  let ?kvs = "[(''pub.ext'', VArray [''1.2.3@win32'', ''1.2.3@darwin''])]"
  let ?table = "fromEntries (map (\<lambda>(key, value). (toLowerCase key, value)) ?kvs)"
  have loaded: "allowedExtensions (constructor mappings (CObject ?kvs)) = Some ?table"
    unfolding allowedExtensions_constructor
    by (rule getAllowedExtensionsValue_object) simp
  have entry: "?table (ext_id (Minimal ''pub.ext'' v pre t))
      = Some (VArray [''1.2.3@win32'', ''1.2.3@darwin''])" for v t
    by (simp add: fromEntries_def lower_pub_ext)
  have win32: "isAllowed (constructor mappings (CObject ?kvs))
      (Minimal ''pub.ext'' (Some ''1.2.3'') pre (Some ''win32'')) = Inr Allowed"
    using isAllowed_id_level [OF loaded entry]
    by (simp add: versionMatches_iff exec_win32)
  have linux: "isAllowed (constructor mappings (CObject ?kvs))
      (Minimal ''pub.ext'' (Some ''1.2.3'') pre (Some ''linux''))
      = Inr (Denied specific_extension_not_allowed)"
    using isAllowed_id_level [OF loaded entry]
    by (simp add: versionMatches_iff exec_win32 exec_darwin TargetPlatform_UNIVERSAL_def)
  have star: "isAllowed (constructor mappings (CObject ?kvs))
      (Minimal ''pub.ext'' None pre target) = Inr Allowed"
    using isAllowed_id_level [OF loaded entry] by simp
  show ?thesis
    using matching other any win32 linux star by blast
qed

theorem version_sequence_matching_witness:
  "isAllowed (constructor [] (CObject [(''pub.ext'', VArray [''1.2.3@win32'', ''1.2.3@darwin''])]))
      (Extension User ''Pub.Ext'' ''1.2.3'' False ''Pub'' ''darwin'') = Inr Allowed
   \<and> isAllowed (constructor [] (CObject [(''pub.ext'', VArray [''1.2.3@win32'', ''1.2.3@darwin''])]))
      (Extension User ''Pub.Ext'' ''1.2.3'' False ''Pub'' ''linux'')
     = Inr (Denied specific_extension_not_allowed)
   \<and> isAllowed (constructor [] (CObject [(''pub.ext'', VArray [''1.2.3@win32'', ''1.2.3@darwin''])]))
      (Extension User ''Pub.Ext'' ''*'' False ''Pub'' ''linux'') = Inr Allowed"
proof -
  let ?kvs = "[(''pub.ext'', VArray [''1.2.3@win32'', ''1.2.3@darwin''])]"
  let ?table = "fromEntries (map (\<lambda>(key, value). (toLowerCase key, value)) ?kvs)"
  let ?svc = "constructor [] (CObject ?kvs)"
  have loaded: "allowedExtensions ?svc = Some ?table"
    unfolding allowedExtensions_constructor
    by (rule getAllowedExtensionsValue_object) simp
  have lower: "toLowerCase ''Pub.Ext'' = ''pub.ext''"
    by code_simp
  have entry: "?table (ext_id (Extension User ''Pub.Ext'' v False ''Pub'' t))
      = Some (VArray [''1.2.3@win32'', ''1.2.3@darwin''])" for v t
    by (simp add: fromEntries_def lower lower_pub_ext)
  have darwin: "isAllowed ?svc (Extension User ''Pub.Ext'' ''1.2.3'' False ''Pub'' ''darwin'')
      = Inr Allowed"
    using version_sequence_matching [OF loaded entry [of "''1.2.3''" "''darwin''"],
        where mappings = "[]" and pre = None and target = None]
    by (simp add: semver_1_2_3 isLineTerminator_def)
  have linux: "isAllowed ?svc (Extension User ''Pub.Ext'' ''1.2.3'' False ''Pub'' ''linux'')
      = Inr (Denied specific_extension_not_allowed)"
    using version_sequence_matching [OF loaded entry [of "''1.2.3''" "''linux''"],
        where mappings = "[]" and pre = None and target = None]
    by (simp add: TargetPlatform_UNIVERSAL_def)
  have star: "isAllowed ?svc (Extension User ''Pub.Ext'' ''*'' False ''Pub'' ''linux'')
      = Inr Allowed"
    using version_sequence_matching [OF loaded entry [of "''*''" "''linux''"],
        where mappings = "[]" and pre = None and target = None]
    by simp
  show ?thesis
    using darwin linux star by simp
qed

text \<open>
  The claim as worded fails twice. The target platform \<^verbatim>\<open>universal\<close> is the suffix of no
  entry, and the descriptor is allowed: the comparison is skipped for it. And the entry
  \<^verbatim>\<open>1.2.3-beta@win32\<close> does not allow version \<^verbatim>\<open>1.2.3-beta\<close> for the target platform \<^verbatim>\<open>win32\<close>:
  behind the prerelease tag the pattern takes \<^verbatim>\<open>@win32\<close> into the version group.
\<close>

theorem version_sequence_matching_counterexample:
  "isAllowed (constructor [] (CObject [(''pub.ext'', VArray [''1.2.3@win32'', ''1.2.3@darwin''])]))
      (Minimal ''pub.ext'' (Some ''1.2.3'') None (Some ''universal'')) = Inr Allowed
   \<and> ext_targetPlatform (Minimal ''pub.ext'' (Some ''1.2.3'') None (Some ''universal''))
      \<noteq> ''win32''
   \<and> ext_targetPlatform (Minimal ''pub.ext'' (Some ''1.2.3'') None (Some ''universal''))
      \<noteq> ''darwin''
   \<and> VersionRegex_exec ''1.2.3-beta@win32'' = Some (''1.2.3-beta@win32'', None)
   \<and> isAllowed (constructor [] (CObject [(''pub.ext'', VArray [''1.2.3-beta@win32''])]))
      (Minimal ''pub.ext'' (Some ''1.2.3-beta'') None (Some ''win32''))
     = Inr (Denied specific_extension_not_allowed)"
  by code_simp

subsection \<open>The rule of the publisher and the wildcard\<close>

text \<open>
  Claim C7 says that a descriptor whose id has no entry and whose publisher has an entry that
  is neither a boolean nor \<^verbatim>\<open>"release"\<close> facing a prerelease is allowed, a sequence of version
  descriptors included. The code does not keep this for a publisher named \<^verbatim>\<open>constructor\<close>:
  the id \<^verbatim>\<open>constructor.ext\<close> has no entry, the publisher has the entry \<^verbatim>\<open>["1.0.0"]\<close>, and
  \<^verbatim>\<open>isAllowed\<close> raises a \<^verbatim>\<open>TypeError\<close>, because the lookup in the publisher mappings finds the
  inherited \<^verbatim>\<open>Object.prototype.constructor\<close> and calls \<^verbatim>\<open>toLowerCase\<close> on it. The same table
  allows \<^verbatim>\<open>pub.ext\<close> of the publisher \<^verbatim>\<open>pub\<close> under the entry \<^verbatim>\<open>"pub": ["1.0.0"]\<close>.
\<close>

theorem publisher_sequence_raises_for_inherited_name:
  "ext_id (Minimal ''constructor.ext'' (Some ''2.0.0'') None None) = ''constructor.ext''
   \<and> ext_publisher (Minimal ''constructor.ext'' (Some ''2.0.0'') None None) = ''constructor''
   \<and> isAllowed (constructor [] (CObject [(''constructor'', VArray [''1.0.0''])]))
        (Minimal ''constructor.ext'' (Some ''2.0.0'') None None) = Inl TypeError
   \<and> isAllowed (constructor [] (CObject [(''pub'', VArray [''1.0.0''])]))
        (Minimal ''pub.ext'' (Some ''2.0.0'') None None) = Inr Allowed"
  by code_simp

text \<open>
  Claim C8 says that a descriptor whose id and whose normalized publisher match no key of the
  table is allowed exactly when the table maps \<^verbatim>\<open>*\<close> to \<^verbatim>\<open>true\<close>, and is otherwise denied with
  the message of the extension. Under the table \<^verbatim>\<open>{"x.y": true}\<close> the code denies \<^verbatim>\<open>a.b\<close>, as
  the claim says, but it allows the id \<^verbatim>\<open>constructor\<close>, for which the lookup in the table
  finds the inherited \<^verbatim>\<open>Object.prototype.constructor\<close>, and it raises a \<^verbatim>\<open>TypeError\<close> for the
  id \<^verbatim>\<open>constructor.ext\<close>, for which the lookup in the publisher mappings does.
\<close>

theorem default_deny_misses_inherited_names:
  "isAllowed (constructor [] (CObject [(''x.y'', VBoolean True)]))
      (Minimal ''a.b'' None None None) = Inr (Denied specific_extension_not_allowed)
   \<and> isAllowed (constructor [] (CObject [(''x.y'', VBoolean True)]))
      (Minimal ''constructor'' None None None) = Inr Allowed
   \<and> isAllowed (constructor [] (CObject [(''x.y'', VBoolean True)]))
      (Minimal ''constructor.ext'' None None None) = Inl TypeError"
  by code_simp

text \<open>
  Claim C9 says that the publisher is normalized through the publisher mappings before its
  entry is looked up, and is used as given when it has no mapping. With the mapping of
  \<^verbatim>\<open>oldname\<close> to \<^verbatim>\<open>newname\<close> and the table \<^verbatim>\<open>{"newname": false}\<close> the code denies the publisher
  \<^verbatim>\<open>oldname\<close>, as the claim says; for the publisher \<^verbatim>\<open>constructor\<close>, which has no mapping, it
  does not use the name as given but raises a \<^verbatim>\<open>TypeError\<close>, and it allows the id
  \<^verbatim>\<open>constructor\<close> of the publisher \<^verbatim>\<open>oldname\<close>, which is no key of the table.
\<close>

theorem publisher_mapping_raises_for_inherited_name:
  "isAllowed (constructor [(''oldname'', ''newname'')] (CObject [(''newname'', VBoolean False)]))
      (Minimal ''oldname.ext'' None None None) = Inr (Denied publisher_not_allowed)
   \<and> isAllowed (constructor [(''oldname'', ''newname'')] (CObject [(''newname'', VBoolean False)]))
      (Minimal ''constructor.ext'' None None None) = Inl TypeError
   \<and> isAllowed (constructor [(''oldname'', ''newname'')] (CObject [(''newname'', VBoolean False)]))
      (GalleryExtension ''constructor'' ''1.0.0'' False ''oldname'' ''universal'') = Inr Allowed"
  by code_simp

subsection \<open>The publisher of a minimal descriptor\<close>

lemma getProperty_wildcard:
  "getProperty table ''*'' = Own (VBoolean True) \<longleftrightarrow> table ''*'' = Some (VBoolean True)"
  by (simp add: getProperty_def ObjectPrototype_properties_def split: option.splits)

lemma isAllowed_publisher_level_own:
  assumes "allowedExtensions this = Some table"
    and "getProperty table (ext_id e) = Undefined"
    and "normalizePublisher (publisherMappings this) (ext_publisher e) = Inr key"
    and "getProperty table key \<noteq> Inherited"
  shows "isAllowed this e = Inr
    (case table key of
       Some (VBoolean b) \<Rightarrow> if b then Allowed else Denied publisher_not_allowed
     | Some (VString s) \<Rightarrow>
         if s = ''release'' \<and> ext_prerelease e
         then Denied prerelease_versions_from_this_publisher_not_allowed
         else Allowed
     | Some (VArray vs) \<Rightarrow> Allowed
     | None \<Rightarrow>
         if table ''*'' = Some (VBoolean True) then Allowed
         else Denied specific_extension_not_allowed)"
proof (cases "table key")
  case None
  with assms(4) have "getProperty table key = Undefined"
    by (simp add: getProperty_def split: if_splits)
  with None show ?thesis
    using isAllowed_publisher_level [OF assms(1,2,3)] by (simp add: getProperty_wildcard)
next
  case (Some entry)
  then have "getProperty table key = Own entry"
    by (rule getProperty_own)
  with Some show ?thesis
    using isAllowed_publisher_level [OF assms(1,2,3)] by (cases entry) simp_all
qed

lemma normalizePublisher_empty:
  "normalizePublisher mappings [] =
     Inr (case mappings [] of None \<Rightarrow> [] | Some canonical \<Rightarrow> toLowerCase canonical)"
  by (simp add: normalizePublisher_def getProperty_def ObjectPrototype_properties_def
      split: option.splits)

text \<open>
  Claim C10, as the code has it. For a minimal descriptor whose id has no \<^verbatim>\<open>.\<close>,
  \<^verbatim>\<open>indexOf\<close> returns \<open>-1\<close> and the derived publisher is the empty string. When the lookup of
  the id finds nothing, the publisher's entry is looked up with the canonical name that the
  publisher mappings give for the empty string when they have one, and with the empty string
  otherwise; that entry of the table, or without it the entry of \<^verbatim>\<open>*\<close>, gives the verdict.
  A key that finds an inherited property instead of an entry is left out of the statement.
\<close>

theorem minimal_id_without_separator:
  assumes "CHR ''.'' \<notin> set i"
  shows "indexOf i CHR ''.'' = - 1
    \<and> ext_publisher (Minimal i v pre tp) = []
    \<and> (\<forall>this table key.
          allowedExtensions this = Some table
          \<and> getProperty table (ext_id (Minimal i v pre tp)) = Undefined
          \<and> key = (case publisherMappings this [] of
                     None \<Rightarrow> []
                   | Some canonical \<Rightarrow> toLowerCase canonical)
          \<and> getProperty table key \<noteq> Inherited
          \<longrightarrow> isAllowed this (Minimal i v pre tp) = Inr
            (case table key of
               Some (VBoolean b) \<Rightarrow> if b then Allowed else Denied publisher_not_allowed
             | Some (VString s) \<Rightarrow>
                 if s = ''release'' \<and> ext_prerelease (Minimal i v pre tp)
                 then Denied prerelease_versions_from_this_publisher_not_allowed
                 else Allowed
             | Some (VArray vs) \<Rightarrow> Allowed
             | None \<Rightarrow>
                 if table ''*'' = Some (VBoolean True) then Allowed
                 else Denied specific_extension_not_allowed))"
proof -
  have index: "indexOf i CHR ''.'' = - 1"
    using assms by (rule indexOf_absent)
  then have publisher: "ext_publisher (Minimal i v pre tp) = []"
    by (simp add: substring_to_negative toLowerCase_def)
  have lookup: "isAllowed this (Minimal i v pre tp) = Inr
      (case table key of
         Some (VBoolean b) \<Rightarrow> if b then Allowed else Denied publisher_not_allowed
       | Some (VString s) \<Rightarrow>
           if s = ''release'' \<and> ext_prerelease (Minimal i v pre tp)
           then Denied prerelease_versions_from_this_publisher_not_allowed
           else Allowed
       | Some (VArray vs) \<Rightarrow> Allowed
       | None \<Rightarrow>
           if table ''*'' = Some (VBoolean True) then Allowed
           else Denied specific_extension_not_allowed)"
    if h: "allowedExtensions this = Some table
        \<and> getProperty table (ext_id (Minimal i v pre tp)) = Undefined
        \<and> key = (case publisherMappings this [] of
                   None \<Rightarrow> []
                 | Some canonical \<Rightarrow> toLowerCase canonical)
        \<and> getProperty table key \<noteq> Inherited"
    for this table key
  proof -
    have normalized:
      "normalizePublisher (publisherMappings this) (ext_publisher (Minimal i v pre tp)) = Inr key"
      using h by (simp only: publisher normalizePublisher_empty)
    from h show ?thesis
      using isAllowed_publisher_level_own [OF _ _ normalized] by blast
  qed
  show ?thesis
    using index publisher lookup by blast
qed

theorem minimal_id_without_separator_witness:
  "indexOf ''foo'' CHR ''.'' = - 1
   \<and> ext_publisher (Minimal ''foo'' None None None) = []
   \<and> isAllowed (constructor [] (CObject [([], VBoolean False), (''*'', VBoolean True)]))
        (Minimal ''foo'' None None None) = Inr (Denied publisher_not_allowed)"
proof -
  let ?kvs = "[([], VBoolean False), (''*'', VBoolean True)]"
  let ?table = "fromEntries (map (\<lambda>(key, value). (toLowerCase key, value)) ?kvs)"
  let ?svc = "constructor [] (CObject ?kvs)"
  let ?e = "Minimal ''foo'' None None None"
  have no_dot: "CHR ''.'' \<notin> set ''foo''"
    by simp
  have loaded: "allowedExtensions ?svc = Some ?table"
    unfolding allowedExtensions_constructor
    by (rule getAllowedExtensionsValue_object) simp
  have id: "ext_id ?e = ''foo''"
    by code_simp
  have no_id: "getProperty ?table (ext_id ?e) = Undefined"
    by (simp only: id)
      (simp add: getProperty_def ObjectPrototype_properties_def fromEntries_def
        toLowerCase_star toLowerCase_def)
  have key: "[] = (case publisherMappings ?svc [] of
                     None \<Rightarrow> []
                   | Some canonical \<Rightarrow> toLowerCase canonical)"
    by (simp add: publisherMappings_constructor_Nil)
  have entry: "?table [] = Some (VBoolean False)"
    by (simp add: fromEntries_def toLowerCase_star toLowerCase_def)
  then have own: "getProperty ?table [] \<noteq> Inherited"
    by (simp add: getProperty_def)
  note fields = minimal_id_without_separator [OF no_dot, of None None None]
  have "isAllowed ?svc ?e = Inr
      (case ?table [] of
         Some (VBoolean b) \<Rightarrow> if b then Allowed else Denied publisher_not_allowed
       | Some (VString s) \<Rightarrow>
           if s = ''release'' \<and> ext_prerelease ?e
           then Denied prerelease_versions_from_this_publisher_not_allowed
           else Allowed
       | Some (VArray vs) \<Rightarrow> Allowed
       | None \<Rightarrow>
           if ?table ''*'' = Some (VBoolean True) then Allowed
           else Denied specific_extension_not_allowed)"
    using fields loaded no_id key own by blast
  then have "isAllowed ?svc ?e = Inr (Denied publisher_not_allowed)"
    by (simp only: entry option.case allowed_value.case if_False)
  then show ?thesis
    using fields by simp
qed

text \<open>
  The claim as worded fails when the publisher mappings have an entry for the empty string:
  the id \<^verbatim>\<open>foo\<close> has no \<^verbatim>\<open>.\<close> and its derived publisher is empty, no key of the table is the
  empty string, and yet the publisher's rule matches the entry of \<^verbatim>\<open>ms\<close> and denies, where a
  lookup with the empty key falls through to \<^verbatim>\<open>"*": true\<close>.
\<close>

theorem minimal_id_without_separator_counterexample:
  "CHR ''.'' \<notin> set ''foo''
   \<and> ext_publisher (Minimal ''foo'' None None None) = []
   \<and> map_of [(''ms'', VBoolean False), (''*'', VBoolean True)] [] = None
   \<and> isAllowed (constructor [([], ''ms'')]
          (CObject [(''ms'', VBoolean False), (''*'', VBoolean True)]))
        (Minimal ''foo'' None None None) = Inr (Denied publisher_not_allowed)
   \<and> isAllowed (constructor []
          (CObject [(''ms'', VBoolean False), (''*'', VBoolean True)]))
        (Minimal ''foo'' None None None) = Inr Allowed"
  by code_simp

end
